theory Spec2Isabelle
  imports Complex_Main
begin

section \<open>Python values of \<^verbatim>\<open>lightbulb/commands/options.py\<close>\<close>

text \<open>
  The classes of the entities that the context-menu descriptor handles. They belong to the
  hikari library: \<^verbatim>\<open>Member\<close> and \<^verbatim>\<open>InteractionMember\<close> derive from
  \<^verbatim>\<open>User\<close>, \<^verbatim>\<open>Message\<close> derives from \<^verbatim>\<open>PartialMessage\<close>.
  Any other class is \<open>OtherClass\<close> with its name.
\<close>

datatype pyclass = User | Member | InteractionMember | PartialMessage | Message
  | OtherClass string

definition issubclass :: "pyclass \<Rightarrow> pyclass \<Rightarrow> bool" where
  "issubclass c d =
     (c = d \<or> (c = Member \<and> d = User)
      \<or> (c = InteractionMember \<and> (d = Member \<or> d = User))
      \<or> (c = Message \<and> d = PartialMessage))"

text \<open>
  A Python value. \<open>UNDEFINED\<close> is the singleton \<^verbatim>\<open>hikari.UNDEFINED\<close>, \<open>PyNone\<close> is
  \<^verbatim>\<open>None\<close>; \<^verbatim>\<open>x is not hikari.UNDEFINED\<close> is \<open>x \<noteq> UNDEFINED\<close>. An entity is an
  object of a class with an identity.
\<close>

datatype pyval = UNDEFINED | PyNone | PyBool bool | PyInt int | PyFloat real
  | PyStr string | PySeq "pyval list" | PyObj pyclass nat

fun isinstance :: "pyval \<Rightarrow> pyclass \<Rightarrow> bool" where
  "isinstance (PyObj c i) d = issubclass c d"
| "isinstance v d = False"

text \<open>
  Truth value of a Python value, as \<^verbatim>\<open>or\<close> tests it. \<^verbatim>\<open>hikari.UNDEFINED\<close> is false;
  the entity classes define neither \<^verbatim>\<open>__bool__\<close> nor \<^verbatim>\<open>__len__\<close>, so an entity is true.
\<close>

fun truthy :: "pyval \<Rightarrow> bool" where
  "truthy UNDEFINED = False"
| "truthy PyNone = False"
| "truthy (PyBool b) = b"
| "truthy (PyInt n) = (n \<noteq> 0)"
| "truthy (PyFloat x) = (x \<noteq> 0)"
| "truthy (PyStr s) = (s \<noteq> [])"
| "truthy (PySeq xs) = (xs \<noteq> [])"
| "truthy (PyObj c i) = True"

definition py_or :: "pyval \<Rightarrow> pyval \<Rightarrow> pyval" where
  "py_or a b = (if truthy a then a else b)"

text \<open>\<^verbatim>\<open>Mapping.get(key)\<close>: the value stored, or \<^verbatim>\<open>None\<close>.\<close>

definition get :: "('k \<rightharpoonup> pyval) \<Rightarrow> 'k \<Rightarrow> pyval" where
  "get m k = (case m k of Some v \<Rightarrow> v | None \<Rightarrow> PyNone)"

datatype error = AssertionError | Raised string

section \<open>OptionData and its schema fragment\<close>

text \<open>\<^verbatim>\<open>hikari.OptionType\<close>.\<close>

datatype OptionType = SUB_COMMAND | SUB_COMMAND_GROUP | STRING | INTEGER | BOOLEAN
  | USER | CHANNEL | ROLE | MENTIONABLE | FLOAT | ATTACHMENT

text \<open>
  \<^verbatim>\<open>hikari.CommandOption\<close>, with the fields that \<^verbatim>\<open>to_command_option\<close> passes. The
  fields \<open>c_\<dots>\<close> are the attributes of the same name without the prefix.
\<close>

record CommandOption =
  c_type :: OptionType
  c_name :: string
  c_description :: string
  is_required :: bool
  c_choices :: pyval
  c_channel_types :: pyval
  c_min_value :: pyval
  c_max_value :: pyval
  c_min_length :: pyval
  c_max_length :: pyval
  c_autocomplete :: bool

definition non_undefined_or :: "pyval \<Rightarrow> pyval \<Rightarrow> pyval" where
  "non_undefined_or item dflt = (if item \<noteq> UNDEFINED then item else dflt)"

record OptionData =
  type :: OptionType
  name :: string
  description :: string
  default :: pyval
  choices :: pyval
  channel_types :: pyval
  min_value :: pyval
  max_value :: pyval
  min_length :: pyval
  max_length :: pyval
  autocomplete :: pyval
  localizations :: pyval

text \<open>
  The keyword-only constructor of the attrs class: \<open>type\<close>, \<open>name\<close> and \<open>description\<close>
  are mandatory, every other field defaults to \<^verbatim>\<open>hikari.UNDEFINED\<close>.
\<close>

definition OptionData_init :: "OptionType \<Rightarrow> string \<Rightarrow> string \<Rightarrow> OptionData" where
  "OptionData_init t n d =
     \<lparr>type = t, name = n, description = d, default = UNDEFINED, choices = UNDEFINED,
      channel_types = UNDEFINED, min_value = UNDEFINED, max_value = UNDEFINED,
      min_length = UNDEFINED, max_length = UNDEFINED, autocomplete = UNDEFINED,
      localizations = UNDEFINED\<rparr>"

definition to_command_option :: "OptionData \<Rightarrow> CommandOption" where
  "to_command_option self =
     \<lparr>c_type = type self,
      c_name = name self,
      c_description = description self,
      is_required = (default self \<noteq> UNDEFINED),
      c_choices = non_undefined_or (choices self) PyNone,
      c_channel_types = non_undefined_or (channel_types self) PyNone,
      c_min_value = non_undefined_or (min_value self) PyNone,
      c_max_value = non_undefined_or (max_value self) PyNone,
      c_min_length = non_undefined_or (min_length self) PyNone,
      c_max_length = non_undefined_or (max_length self) PyNone,
      c_autocomplete = (autocomplete self \<noteq> UNDEFINED)\<rparr>"


section \<open>Invocation contexts and command instances\<close>

text \<open>
  What the descriptors read of an invocation: \<^verbatim>\<open>context.interaction\<close>, its
  \<^verbatim>\<open>resolved\<close> entity tables (or \<^verbatim>\<open>None\<close>) and its \<^verbatim>\<open>target_id\<close> (a snowflake, or
  \<^verbatim>\<open>None\<close>).
\<close>

record ResolvedOptionData =
  members :: "nat \<rightharpoonup> pyval"
  users :: "nat \<rightharpoonup> pyval"
  messages :: "nat \<rightharpoonup> pyval"

record Interaction =
  resolved :: "ResolvedOptionData option"
  target_id :: "nat option"

record Context =
  interaction :: Interaction

section \<open>Option descriptors\<close>

record Option =
  data :: OptionData
  unbound_default :: pyval

text \<open>
  The framework object \<^verbatim>\<open>instance._\<close> with its value resolver, which returns a value or
  raises; and a command instance with its \<^verbatim>\<open>_current_context\<close> (or \<^verbatim>\<open>None\<close>).
\<close>

record Client =
  resolve_option :: "Context \<Rightarrow> Option \<Rightarrow> error + pyval"

record CommandBase =
  current_context :: "Context option"
  client :: Client

text \<open>
  \<^verbatim>\<open>Option.__get__\<close>. The effect of a read is on the list of the calls made to the value
  resolver, each with its two arguments: the read returns a value or raises, and the list
  as it is afterwards.
\<close>

type_synonym resolver_calls = "(Context \<times> Option) list"

definition Option_get ::
  "Option \<Rightarrow> CommandBase option \<Rightarrow> pyclass \<Rightarrow> resolver_calls
    \<Rightarrow> (error + pyval) \<times> resolver_calls" where
  "Option_get self instance owner calls =
     (case instance of
        None \<Rightarrow> (Inr (unbound_default self), calls)
      | Some inst \<Rightarrow>
         (case current_context inst of
            None \<Rightarrow> (Inr (unbound_default self), calls)
          | Some ctx \<Rightarrow>
              (resolve_option (client inst) ctx self, calls @ [(ctx, self)])))"

section \<open>The context-menu descriptor\<close>

text \<open>
  Modelled from the spec: \<^verbatim>\<open>lightbulb.utils.EMPTY_USER\<close> and
  \<^verbatim>\<open>lightbulb.utils.EMPTY_MESSAGE\<close>, whose module is not part of the source at hand:
  the sentinel "empty user" and "empty message" values, an object of class
  \<^verbatim>\<open>hikari.User\<close> and one of class \<^verbatim>\<open>hikari.Message\<close>.
\<close>

definition EMPTY_USER :: pyval where
  "EMPTY_USER = PyObj User 0"

definition EMPTY_MESSAGE :: pyval where
  "EMPTY_MESSAGE = PyObj Message 0"

text \<open>The subclass adds the slot \<^verbatim>\<open>_type\<close>, here \<open>target_type\<close>.\<close>

record ContextMenuOption = Option +
  target_type :: pyclass

definition ContextMenuOption_init :: "pyclass \<Rightarrow> ContextMenuOption" where
  "ContextMenuOption_init t =
     \<lparr>data = OptionData_init STRING ''target'' ''target'',
      unbound_default = (if t = User then EMPTY_USER else EMPTY_MESSAGE),
      target_type = t\<rparr>"

definition ContextMenuOption_get ::
  "ContextMenuOption \<Rightarrow> CommandBase option \<Rightarrow> pyclass \<Rightarrow> error + pyval" where
  "ContextMenuOption_get self instance owner =
     (case instance of
        None \<Rightarrow> Inr (unbound_default self)
      | Some inst \<Rightarrow>
         (case current_context inst of
            None \<Rightarrow> Inr (unbound_default self)
          | Some ctx \<Rightarrow>
             (case resolved (interaction ctx) of
                None \<Rightarrow> Inl AssertionError
              | Some res \<Rightarrow>
                 (case target_id (interaction ctx) of
                    None \<Rightarrow> Inl AssertionError
                  | Some tid \<Rightarrow>
                     if target_type self = User then
                       (let user = py_or (get (members res) tid) (get (users res) tid)
                        in if isinstance user User then Inr user else Inl AssertionError)
                     else
                       (let message = get (messages res) tid
                        in if isinstance message Message then Inr message
                           else Inl AssertionError)))))"

section \<open>The typed constructors\<close>

text \<open>
  Each takes every parameter of the source function; a caller that leaves an optional
  parameter out passes its default, \<open>UNDEFINED\<close>. The fields of \<open>OptionData\<close> that a
  constructor does not pass keep their default, \<open>UNDEFINED\<close>.
\<close>

definition string ::
  "string \<Rightarrow> string \<Rightarrow> pyval \<Rightarrow> pyval \<Rightarrow> pyval \<Rightarrow> pyval \<Rightarrow> pyval \<Rightarrow> Option" where
  "string nm descr dflt chs min_len max_len autoc =
     \<lparr>data = \<lparr>type = STRING, name = nm, description = descr, default = dflt,
              choices = chs, channel_types = UNDEFINED, min_value = UNDEFINED,
              max_value = UNDEFINED, min_length = min_len, max_length = max_len,
              autocomplete = autoc, localizations = UNDEFINED\<rparr>,
      unbound_default = PyStr ''''\<rparr>"

definition integer ::
  "string \<Rightarrow> string \<Rightarrow> pyval \<Rightarrow> pyval \<Rightarrow> pyval \<Rightarrow> pyval \<Rightarrow> pyval \<Rightarrow> Option" where
  "integer nm descr dflt chs min_val max_val autoc =
     \<lparr>data = \<lparr>type = INTEGER, name = nm, description = descr, default = dflt,
              choices = chs, channel_types = UNDEFINED, min_value = min_val,
              max_value = max_val, min_length = UNDEFINED, max_length = UNDEFINED,
              autocomplete = autoc, localizations = UNDEFINED\<rparr>,
      unbound_default = PyInt 0\<rparr>"

definition boolean :: "string \<Rightarrow> string \<Rightarrow> pyval \<Rightarrow> Option" where
  "boolean nm descr dflt =
     \<lparr>data = \<lparr>type = BOOLEAN, name = nm, description = descr, default = dflt,
              choices = UNDEFINED, channel_types = UNDEFINED, min_value = UNDEFINED,
              max_value = UNDEFINED, min_length = UNDEFINED, max_length = UNDEFINED,
              autocomplete = UNDEFINED, localizations = UNDEFINED\<rparr>,
      unbound_default = PyBool False\<rparr>"

definition number ::
  "string \<Rightarrow> string \<Rightarrow> pyval \<Rightarrow> pyval \<Rightarrow> pyval \<Rightarrow> pyval \<Rightarrow> pyval \<Rightarrow> Option" where
  "number nm descr dflt chs min_val max_val autoc =
     \<lparr>data = \<lparr>type = FLOAT, name = nm, description = descr, default = dflt,
              choices = chs, channel_types = UNDEFINED, min_value = min_val,
              max_value = max_val, min_length = UNDEFINED, max_length = UNDEFINED,
              autocomplete = autoc, localizations = UNDEFINED\<rparr>,
      unbound_default = PyFloat 0\<rparr>"

section \<open>Example invocations\<close>

text \<open>
  An invocation whose target is \<open>tid\<close>: snowflake 7 is resolved both as a member and as a
  user (two different entities), 8 as a user only, 9 as a message. The example resolver
  knows the option named \<^verbatim>\<open>text\<close> and raises for any other.
\<close>

definition example_resolved :: ResolvedOptionData where
  "example_resolved =
     \<lparr>members = [7 \<mapsto> PyObj InteractionMember 1],
      users = [7 \<mapsto> PyObj User 2, 8 \<mapsto> PyObj User 3],
      messages = [9 \<mapsto> PyObj Message 4]\<rparr>"

definition example_context :: "nat \<Rightarrow> Context" where
  "example_context tid =
     \<lparr>interaction = \<lparr>resolved = Some example_resolved, target_id = Some tid\<rparr>\<rparr>"

definition example_resolver :: "Context \<Rightarrow> Option \<Rightarrow> error + pyval" where
  "example_resolver ctx opt =
     (if name (data opt) = ''text'' then Inr (PyStr ''hello'')
      else Inl (Raised ''KeyError''))"

definition example_command :: "nat \<Rightarrow> CommandBase" where
  "example_command tid =
     \<lparr>current_context = Some (example_context tid),
      client = \<lparr>resolve_option = example_resolver\<rparr>\<rparr>"

definition unbound_command :: CommandBase where
  "unbound_command =
     \<lparr>current_context = None, client = \<lparr>resolve_option = example_resolver\<rparr>\<rparr>"

section \<open>Schema materialization\<close>

text \<open>
  What the code computes for \<open>is_required\<close>: the option is marked required exactly when
  its default is set.
\<close>

lemma to_command_option_is_required:
  "is_required (to_command_option d) = (default d \<noteq> UNDEFINED)"
  by (simp add: to_command_option_def)

text \<open>
  Claim C1 says that the schema fragment has \<open>is_required\<close> true exactly when the default
  is unset. The code computes the opposite: for an \<open>OptionData\<close> built with type, name and
  description only, whose default is unset, \<open>is_required\<close> is false; and with the explicit
  default \<^verbatim>\<open>None\<close> it is true.
\<close>

theorem to_command_option_is_required_inverted:
  "default (OptionData_init STRING ''name'' ''desc'') = UNDEFINED
   \<and> \<not> is_required (to_command_option (OptionData_init STRING ''name'' ''desc''))
   \<and> is_required
       (to_command_option ((OptionData_init STRING ''name'' ''desc'')\<lparr>default := PyNone\<rparr>))"
  by (simp add: to_command_option_def OptionData_init_def)

text \<open>
  Claim C2 is about \<^verbatim>\<open>integer("age", "desc", min_value=0, max_value=120)\<close>, materialized.
  The fragment has kind INTEGER, name \<^verbatim>\<open>age\<close>, the bounds 0 and 120, and \<^verbatim>\<open>None\<close>
  for choices and channel types, as the claim says; but \<open>is_required\<close> is false where the
  claim says true.
\<close>

theorem integer_age_materialized:
  "to_command_option
     (data (integer ''age'' ''desc'' UNDEFINED UNDEFINED (PyInt 0) (PyInt 120) UNDEFINED)) =
   \<lparr>c_type = INTEGER, c_name = ''age'', c_description = ''desc'', is_required = False,
    c_choices = PyNone, c_channel_types = PyNone, c_min_value = PyInt 0,
    c_max_value = PyInt 120, c_min_length = PyNone, c_max_length = PyNone,
    c_autocomplete = False\<rparr>"
  by (simp add: to_command_option_def integer_def non_undefined_or_def)

text \<open>
  Claim C7: the \<open>autocomplete\<close> field of the schema fragment is a boolean, true exactly
  when the stored field is not \<open>UNDEFINED\<close>; the stored value itself does not reach the
  fragment, since any two values other than \<open>UNDEFINED\<close> give the same fragment.
\<close>

theorem to_command_option_autocomplete:
  "c_autocomplete (to_command_option d) = (autocomplete d \<noteq> UNDEFINED)
   \<and> (v \<noteq> UNDEFINED \<and> w \<noteq> UNDEFINED
        \<longrightarrow> to_command_option (d\<lparr>autocomplete := v\<rparr>)
            = to_command_option (d\<lparr>autocomplete := w\<rparr>))"
  by (simp add: to_command_option_def)

theorem to_command_option_autocomplete_witness:
  "c_autocomplete (to_command_option
      (data (string ''q'' ''query'' UNDEFINED UNDEFINED UNDEFINED UNDEFINED (PyStr ''cb''))))
   \<and> to_command_option
        (data (string ''q'' ''query'' UNDEFINED UNDEFINED UNDEFINED UNDEFINED (PyStr ''cb'')))
     = to_command_option
        (data (string ''q'' ''query'' UNDEFINED UNDEFINED UNDEFINED UNDEFINED (PyBool False)))"
  using to_command_option_autocomplete
    [where d = "data (string ''q'' ''query'' UNDEFINED UNDEFINED UNDEFINED UNDEFINED
                       (PyStr ''cb''))"
      and v = "PyStr ''cb''" and w = "PyBool False"]
  by (simp add: string_def to_command_option_def)




section \<open>Reading an option descriptor\<close>

text \<open>
  Claim C5: a read through an instance bound to the invocation \<open>ctx\<close> makes one call to
  the value resolver, with \<open>ctx\<close> and the descriptor, and returns what the resolver
  returns; when the resolver raises, the read raises the same error.
\<close>

theorem Option_get_bound:
  assumes "current_context inst = Some ctx"
  shows "Option_get self (Some inst) owner calls
           = (resolve_option (client inst) ctx self, calls @ [(ctx, self)])
       \<and> (resolve_option (client inst) ctx self = Inl e
            \<longrightarrow> fst (Option_get self (Some inst) owner calls) = Inl e)"
  using assms by (simp add: Option_get_def)

theorem Option_get_bound_witness:
  "Option_get (string ''text'' ''a text'' UNDEFINED UNDEFINED UNDEFINED UNDEFINED UNDEFINED)
       (Some (example_command 7)) (OtherClass ''Echo'') []
     = (Inr (PyStr ''hello''),
        [(example_context 7,
          string ''text'' ''a text'' UNDEFINED UNDEFINED UNDEFINED UNDEFINED UNDEFINED)])
   \<and> Option_get (boolean ''flag'' ''a flag'' UNDEFINED)
       (Some (example_command 7)) (OtherClass ''Echo'') []
     = (Inl (Raised ''KeyError''),
        [(example_context 7, boolean ''flag'' ''a flag'' UNDEFINED)])"
  using Option_get_bound [where inst = "example_command 7" and ctx = "example_context 7"
      and self = "string ''text'' ''a text'' UNDEFINED UNDEFINED UNDEFINED UNDEFINED UNDEFINED"
      and owner = "OtherClass ''Echo''" and calls = "[]"]
    Option_get_bound [where inst = "example_command 7" and ctx = "example_context 7"
      and self = "boolean ''flag'' ''a flag'' UNDEFINED"
      and owner = "OtherClass ''Echo''" and calls = "[]" and e = "Raised ''KeyError''"]
  by (simp add: example_command_def example_resolver_def string_def boolean_def)

text \<open>
  Claim C6: a read through the class (no instance) or through an instance whose current
  context is \<^verbatim>\<open>None\<close> returns the unbound fallback, makes no call to the resolver and
  does not raise; the same holds of the context-menu descriptor. For \<open>string\<close>,
  \<open>integer\<close>, \<open>boolean\<close> and \<open>number\<close> called with a name and a description only, the
  fallback is \<^verbatim>\<open>""\<close>, \<^verbatim>\<open>0\<close>, \<^verbatim>\<open>False\<close> and \<^verbatim>\<open>0.0\<close>.
\<close>

theorem Option_get_unbound:
  assumes "reader = None \<or> (\<exists>inst. reader = Some inst \<and> current_context inst = None)"
  shows "Option_get self reader owner calls = (Inr (unbound_default self), calls)
       \<and> ContextMenuOption_get cself reader owner = Inr (unbound_default cself)
       \<and> unbound_default (string nm descr UNDEFINED UNDEFINED UNDEFINED UNDEFINED UNDEFINED)
           = PyStr ''''
       \<and> unbound_default (integer nm descr UNDEFINED UNDEFINED UNDEFINED UNDEFINED UNDEFINED)
           = PyInt 0
       \<and> unbound_default (boolean nm descr UNDEFINED) = PyBool False
       \<and> unbound_default (number nm descr UNDEFINED UNDEFINED UNDEFINED UNDEFINED UNDEFINED)
           = PyFloat 0"
  using assms
  by (auto simp: Option_get_def ContextMenuOption_get_def string_def integer_def boolean_def
      number_def)

theorem Option_get_unbound_witness:
  "Option_get (integer ''age'' ''desc'' UNDEFINED UNDEFINED UNDEFINED UNDEFINED UNDEFINED)
       None (OtherClass ''Echo'') [] = (Inr (PyInt 0), [])
   \<and> Option_get (number ''x'' ''desc'' UNDEFINED UNDEFINED UNDEFINED UNDEFINED UNDEFINED)
       (Some unbound_command) (OtherClass ''Echo'') [] = (Inr (PyFloat 0), [])"
  using Option_get_unbound [where reader = None and owner = "OtherClass ''Echo''"
      and calls = "[]"
      and self = "integer ''age'' ''desc'' UNDEFINED UNDEFINED UNDEFINED UNDEFINED UNDEFINED"
      and nm = "''age''" and descr = "''desc''"]
    Option_get_unbound [where reader = "Some unbound_command"
      and owner = "OtherClass ''Echo''" and calls = "[]"
      and self = "number ''x'' ''desc'' UNDEFINED UNDEFINED UNDEFINED UNDEFINED UNDEFINED"
      and nm = "''x''" and descr = "''desc''"]
  by (simp add: unbound_command_def)

section \<open>Reading the context-menu descriptor\<close>

lemma isinstance_truthy: "isinstance v c \<Longrightarrow> truthy v"
  by (cases v) simp_all

text \<open>
  An entry of the wrong class fails the assertion as a missing entry does: the read
  raises.
\<close>

lemma ContextMenuOption_get_mismatch:
  assumes "current_context inst = Some ctx"
    and "resolved (interaction ctx) = Some res"
    and "target_id (interaction ctx) = Some tid"
    and "target_type self \<noteq> User"
    and "messages res tid = Some X" and "\<not> isinstance X Message"
  shows "ContextMenuOption_get self (Some inst) owner = Inl AssertionError"
  using assms by (simp add: ContextMenuOption_get_def get_def)

text \<open>
  Claim C3: for a descriptor of type User read through an instance bound to an
  invocation with resolved tables and a target id: when the members table has the user
  entity \<open>M\<close> at the target id, the read returns \<open>M\<close>, whatever the users table holds;
  when the members table has no entry there and the users table has the user entity \<open>U\<close>,
  the read returns \<open>U\<close>.
\<close>

theorem ContextMenuOption_get_user:
  assumes "current_context inst = Some ctx"
    and "resolved (interaction ctx) = Some res"
    and "target_id (interaction ctx) = Some tid"
    and "target_type self = User"
  shows "(members res tid = Some M \<and> isinstance M User
            \<longrightarrow> ContextMenuOption_get self (Some inst) owner = Inr M)
       \<and> (members res tid = None \<and> users res tid = Some U \<and> isinstance U User
            \<longrightarrow> ContextMenuOption_get self (Some inst) owner = Inr U)"
  using assms
  by (auto simp: ContextMenuOption_get_def get_def py_or_def isinstance_truthy)

theorem ContextMenuOption_get_user_witness:
  "ContextMenuOption_get (ContextMenuOption_init User) (Some (example_command 7))
       (OtherClass ''UserCommand'')
     = Inr (PyObj InteractionMember 1)
   \<and> ContextMenuOption_get (ContextMenuOption_init User) (Some (example_command 8))
       (OtherClass ''UserCommand'')
     = Inr (PyObj User 3)"
  using ContextMenuOption_get_user [where inst = "example_command 7"
      and ctx = "example_context 7" and res = example_resolved and tid = 7
      and self = "ContextMenuOption_init User" and M = "PyObj InteractionMember 1"
      and owner = "OtherClass ''UserCommand''"]
    ContextMenuOption_get_user [where inst = "example_command 8"
      and ctx = "example_context 8" and res = example_resolved and tid = 8
      and self = "ContextMenuOption_init User" and U = "PyObj User 3"
      and owner = "OtherClass ''UserCommand''"]
  by (simp add: example_command_def example_context_def example_resolved_def
      ContextMenuOption_init_def issubclass_def)

text \<open>
  Claim C4: for a descriptor of type Message read through an instance bound to an
  invocation with resolved tables and a target id: when the messages table has the
  message entity \<open>X\<close> at the target id, the read returns \<open>X\<close>; when it has no entry there,
  the read raises \<^verbatim>\<open>AssertionError\<close> and does not return the unbound fallback.
\<close>

theorem ContextMenuOption_get_message:
  assumes "current_context inst = Some ctx"
    and "resolved (interaction ctx) = Some res"
    and "target_id (interaction ctx) = Some tid"
    and "target_type self = Message"
  shows "(messages res tid = Some X \<and> isinstance X Message
            \<longrightarrow> ContextMenuOption_get self (Some inst) owner = Inr X)
       \<and> (messages res tid = None
            \<longrightarrow> ContextMenuOption_get self (Some inst) owner = Inl AssertionError
              \<and> ContextMenuOption_get self (Some inst) owner \<noteq> Inr (unbound_default self))"
  using assms
  by (auto simp: ContextMenuOption_get_def get_def)

theorem ContextMenuOption_get_message_witness:
  "ContextMenuOption_get (ContextMenuOption_init Message) (Some (example_command 9))
       (OtherClass ''MessageCommand'')
     = Inr (PyObj Message 4)
   \<and> ContextMenuOption_get (ContextMenuOption_init Message) (Some (example_command 7))
       (OtherClass ''MessageCommand'')
     = Inl AssertionError"
  using ContextMenuOption_get_message [where inst = "example_command 9"
      and ctx = "example_context 9" and res = example_resolved and tid = 9
      and self = "ContextMenuOption_init Message" and X = "PyObj Message 4"
      and owner = "OtherClass ''MessageCommand''"]
    ContextMenuOption_get_message [where inst = "example_command 7"
      and ctx = "example_context 7" and res = example_resolved and tid = 7
      and self = "ContextMenuOption_init Message"
      and owner = "OtherClass ''MessageCommand''"]
  by (simp add: example_command_def example_context_def example_resolved_def
      ContextMenuOption_init_def issubclass_def)

text \<open>
  Claim C9: whatever the declared type, the context-menu descriptor holds the same
  \<open>OptionData\<close>: kind STRING, name and description \<^verbatim>\<open>target\<close>, every other field
  \<open>UNDEFINED\<close>; so any two of them materialize to the same fragment.
\<close>

theorem ContextMenuOption_init_data:
  "data (ContextMenuOption_init t) =
     \<lparr>type = STRING, name = ''target'', description = ''target'', default = UNDEFINED,
      choices = UNDEFINED, channel_types = UNDEFINED, min_value = UNDEFINED,
      max_value = UNDEFINED, min_length = UNDEFINED, max_length = UNDEFINED,
      autocomplete = UNDEFINED, localizations = UNDEFINED\<rparr>
   \<and> data (ContextMenuOption_init User) = data (ContextMenuOption_init Message)
   \<and> to_command_option (data (ContextMenuOption_init t))
       = to_command_option (data (ContextMenuOption_init t'))"
  by (simp add: ContextMenuOption_init_def OptionData_init_def)

text \<open>
  Claim C10: the unbound fallback of the context-menu descriptor is the empty user exactly
  when the declared type is the class User itself, and the empty message for any other
  declared type, the subclasses of User among them.
\<close>

theorem ContextMenuOption_init_unbound_default:
  "unbound_default (ContextMenuOption_init t)
     = (if t = User then EMPTY_USER else EMPTY_MESSAGE)
   \<and> (unbound_default (ContextMenuOption_init t) = EMPTY_USER) = (t = User)
   \<and> (unbound_default (ContextMenuOption_init t) = EMPTY_MESSAGE) = (t \<noteq> User)
   \<and> unbound_default (ContextMenuOption_init Member) = EMPTY_MESSAGE
   \<and> unbound_default (ContextMenuOption_init InteractionMember) = EMPTY_MESSAGE"
  by (simp add: ContextMenuOption_init_def EMPTY_USER_def EMPTY_MESSAGE_def)

end
